theory Spec2Isabelle
  imports Main "HOL-Library.Sublist"
begin

section \<open>Data model\<close>

text \<open>
  Go errors. The code tells apart only the API server's not-found error
  (\<open>k8serrors.IsNotFound\<close>) from every other error; \<open>errors.New msg\<close> is
  \<open>ErrorString msg\<close>, any other failure of the API client is \<open>ApiError msg\<close>.
\<close>

datatype error = NotFoundError | ErrorString string | ApiError string

fun IsNotFound :: "error \<Rightarrow> bool" where
  "IsNotFound NotFoundError = True"
| "IsNotFound _ = False"

text \<open>\<open>types.NamespacedName\<close>: the name, then the namespace.\<close>

type_synonym NamespacedName = "string \<times> string"

text \<open>
  The Synapse custom resource, with the fields of Spec and Status that the
  controllers read or write.
\<close>

record ConfigMapRef =
  CMName :: string
  CMNamespace :: string

record HomeserverValues =
  ValuesServerName :: string
  ValuesReportStats :: bool

record SynapseHomeserver =
  ConfigMap :: "ConfigMapRef option"
  Values :: HomeserverValues

record SynapseSpec =
  Homeserver :: SynapseHomeserver
  CreateNewPostgreSQL :: bool
  IsOpenshift :: bool

record SynapseStatusDatabaseConnectionInfo =
  ConnectionURL :: string
  DatabaseName :: string
  User :: string
  Password :: string
  DBState :: string

record SynapseStatusHomeserverConfiguration =
  ServerName :: string
  ReportStats :: bool

record SynapseStatusBridge =
  Enabled :: bool
  BridgeName :: string

record SynapseStatusBridges =
  BridgesHeisenbridge :: SynapseStatusBridge
  BridgesMautrixSignal :: SynapseStatusBridge

record SynapseStatus =
  DatabaseConnectionInfo :: SynapseStatusDatabaseConnectionInfo
  HomeserverConfiguration :: SynapseStatusHomeserverConfiguration
  Bridges :: SynapseStatusBridges
  State :: string
  Reason :: string
  NeedsReconcile :: bool

record Synapse =
  Name :: string
  Namespace :: string
  Spec :: SynapseSpec
  Status :: SynapseStatus

text \<open>The Go zero value \<open>synapsev1alpha1.Synapse{}\<close>.\<close>

definition emptySynapse :: Synapse where
  "emptySynapse =
     \<lparr>Name = [], Namespace = [],
      Spec = \<lparr>Homeserver = \<lparr>ConfigMap = None,
                Values = \<lparr>ValuesServerName = [], ValuesReportStats = False\<rparr>\<rparr>,
              CreateNewPostgreSQL = False, IsOpenshift = False\<rparr>,
      Status = \<lparr>DatabaseConnectionInfo =
                  \<lparr>ConnectionURL = [], DatabaseName = [], User = [],
                   Password = [], DBState = []\<rparr>,
                HomeserverConfiguration = \<lparr>ServerName = [], ReportStats = False\<rparr>,
                Bridges = \<lparr>BridgesHeisenbridge = \<lparr>Enabled = False, BridgeName = []\<rparr>,
                           BridgesMautrixSignal = \<lparr>Enabled = False, BridgeName = []\<rparr>\<rparr>,
                State = [], Reason = [], NeedsReconcile = False\<rparr>\<rparr>"

text \<open>
  The MautrixSignal and Heisenbridge custom resources. Their field names are
  prefixed, since a record field is a constant of the theory.
\<close>

record MautrixSignalSpec =
  msSynapseName :: string
  msSynapseNamespace :: string
  msConfigMapName :: string
  msConfigMapNamespace :: string

record MautrixSignalStatus =
  msSynapseServerName :: string
  msIsOpenshift :: bool

record MautrixSignal =
  msName :: string
  msNamespace :: string
  msSpec :: MautrixSignalSpec
  msStatus :: MautrixSignalStatus

definition emptyMautrixSignal :: MautrixSignal where
  "emptyMautrixSignal =
     \<lparr>msName = [], msNamespace = [],
      msSpec = \<lparr>msSynapseName = [], msSynapseNamespace = [],
                msConfigMapName = [], msConfigMapNamespace = []\<rparr>,
      msStatus = \<lparr>msSynapseServerName = [], msIsOpenshift = False\<rparr>\<rparr>"

record Heisenbridge =
  hName :: string
  hNamespace :: string
  hSynapseName :: string

section \<open>The subreconciler library\<close>

text \<open>
  The package \<open>github.com/opdev/subreconciler\<close> is an external library, not
  code of the repository; its helpers are modelled after their documented
  behaviour. A step returns a pair
  \<open>(*ctrl.Result, error)\<close>; the Outcome of the spec is read off it: Continue
  is \<open>(nil, nil)\<close>, Halt is a result with Requeue false, Requeue a result
  with Requeue true, RequeueWithError the same with the error.
  \<open>ShouldHaltOrRequeue\<close> holds when the result is not nil or the error is
  not nil. \<open>Evaluate\<close> dereferences the result pointer, which in Go panics
  on nil.
\<close>

record Result =
  ResultRequeue :: bool
  ResultRequeueAfter :: int

type_synonym outcome = "Result option \<times> error option"

definition ContinueReconciling :: outcome where
  "ContinueReconciling = (None, None)"

definition DoNotRequeue :: outcome where
  "DoNotRequeue = (Some \<lparr>ResultRequeue = False, ResultRequeueAfter = 0\<rparr>, None)"

definition Requeue :: outcome where
  "Requeue = (Some \<lparr>ResultRequeue = True, ResultRequeueAfter = 0\<rparr>, None)"

definition RequeueWithError :: "error \<Rightarrow> outcome" where
  "RequeueWithError e = (Some \<lparr>ResultRequeue = True, ResultRequeueAfter = 0\<rparr>, Some e)"

fun ShouldHaltOrRequeue :: "outcome \<Rightarrow> bool" where
  "ShouldHaltOrRequeue (r, err) = (r \<noteq> None \<or> err \<noteq> None)"

datatype panic = NilPointerDereference

fun Evaluate :: "outcome \<Rightarrow> panic + (Result \<times> error option)" where
  "Evaluate (Some r, err) = Inr (r, err)"
| "Evaluate (None, err) = Inl NilPointerDereference"

section \<open>The object store\<close>

text \<open>
  The API client (\<open>client.Client\<close>) is external. The cluster is a state
  passed through every call: the stored Synapse objects by identity, the
  stored MautrixSignal and Heisenbridge objects (lists, since they are also
  listed), the Secrets' data, whether the API server knows the
  PostgresCluster kind (the postgres-operator is installed), and a script of
  faults. Every call of the client takes the head of the script: \<open>Some e\<close>
  makes the call fail with \<open>e\<close> and leave the store alone, \<open>None\<close> (or an
  exhausted script) lets it through. A step is a function of the request and
  the cluster, giving its outcome and the cluster after it.
\<close>

record world =
  synapses :: "NamespacedName \<rightharpoonup> Synapse"
  mautrixsignals :: "MautrixSignal list"
  heisenbridges :: "Heisenbridge list"
  secrets :: "NamespacedName \<rightharpoonup> (string \<rightharpoonup> string)"
  postgresClusterKind :: bool
  faults :: "error option list"

type_synonym step = "NamespacedName \<Rightarrow> world \<Rightarrow> outcome \<times> world"

definition nextFault :: "world \<Rightarrow> error option \<times> world" where
  "nextFault w =
     (case faults w of [] \<Rightarrow> (None, w) | f # fs \<Rightarrow> (f, w\<lparr>faults := fs\<rparr>))"

text \<open>\<open>r.Get\<close> on a Synapse: not-found when the identity is not stored.\<close>

definition GetSynapse :: "NamespacedName \<Rightarrow> world \<Rightarrow> (error + Synapse) \<times> world" where
  "GetSynapse key w =
     (case nextFault w of
        (Some e, w') \<Rightarrow> (Inl e, w')
      | (None, w') \<Rightarrow>
          (case synapses w' key of
             None \<Rightarrow> (Inl NotFoundError, w')
           | Some s \<Rightarrow> (Inr s, w')))"

text \<open>
  \<open>r.Status().Patch(ctx, obj, client.MergeFrom(base))\<close>: the merge patch
  from the base to the object, sent to the status subresource, which applies
  its Status part only. The base is the object just read, and nothing else
  writes within a call, so the Status that results is the object's; Spec and
  identity of the stored object stay.
\<close>

definition PatchSynapseStatus :: "Synapse \<Rightarrow> Synapse \<Rightarrow> world \<Rightarrow> error option \<times> world" where
  "PatchSynapseStatus obj base w =
     (case nextFault w of
        (Some e, w') \<Rightarrow> (Some e, w')
      | (None, w') \<Rightarrow>
          (case synapses w' (Name obj, Namespace obj) of
             None \<Rightarrow> (Some NotFoundError, w')
           | Some stored \<Rightarrow>
               (None, w'\<lparr>synapses := (synapses w')
                  ((Name obj, Namespace obj) \<mapsto> stored\<lparr>Status := Status obj\<rparr>)\<rparr>)))"

definition msKey :: "MautrixSignal \<Rightarrow> NamespacedName" where
  "msKey ms = (msName ms, msNamespace ms)"

definition GetMautrixSignal :: "NamespacedName \<Rightarrow> world \<Rightarrow> (error + MautrixSignal) \<times> world" where
  "GetMautrixSignal key w =
     (case nextFault w of
        (Some e, w') \<Rightarrow> (Inl e, w')
      | (None, w') \<Rightarrow>
          (case find (\<lambda>ms. msKey ms = key) (mautrixsignals w') of
             None \<Rightarrow> (Inl NotFoundError, w')
           | Some ms \<Rightarrow> (Inr ms, w')))"


text \<open>
  \<open>r.Client.List\<close> into a fresh, empty list object: on failure the list
  stays empty.
\<close>

definition ListHeisenbridges :: "world \<Rightarrow> (error option \<times> Heisenbridge list) \<times> world" where
  "ListHeisenbridges w =
     (case nextFault w of
        (Some e, w') \<Rightarrow> ((Some e, []), w')
      | (None, w') \<Rightarrow> ((None, heisenbridges w'), w'))"

definition ListMautrixSignals :: "world \<Rightarrow> (error option \<times> MautrixSignal list) \<times> world" where
  "ListMautrixSignals w =
     (case nextFault w of
        (Some e, w') \<Rightarrow> ((Some e, []), w')
      | (None, w') \<Rightarrow> ((None, mautrixsignals w'), w'))"

definition ListPostgresClusters :: "world \<Rightarrow> error option \<times> world" where
  "ListPostgresClusters w =
     (case nextFault w of
        (Some e, w') \<Rightarrow> (Some e, w')
      | (None, w') \<Rightarrow>
          (if postgresClusterKind w' then (None, w')
           else (Some (ApiError ''no matches for kind PostgresCluster''), w')))"

definition GetSecret :: "NamespacedName \<Rightarrow> world \<Rightarrow> (error + (string \<rightharpoonup> string)) \<times> world" where
  "GetSecret key w =
     (case nextFault w of
        (Some e, w') \<Rightarrow> (Inl e, w')
      | (None, w') \<Rightarrow>
          (case secrets w' key of
             None \<Rightarrow> (Inl NotFoundError, w')
           | Some d \<Rightarrow> (Inr d, w')))"

section \<open>The Synapse controller\<close>

definition GetPostgresClusterResourceName :: "Synapse \<Rightarrow> string" where
  "GetPostgresClusterResourceName synapse = Name synapse @ ''-'' @ ''pgsql''"

text \<open>
  \<open>getLatestSynapse\<close> fills the object passed by pointer: the model takes it
  and returns it, unchanged when the read fails.
\<close>

definition getLatestSynapse ::
  "NamespacedName \<Rightarrow> Synapse \<Rightarrow> world \<Rightarrow> (outcome \<times> Synapse) \<times> world" where
  "getLatestSynapse req s w =
     (case GetSynapse req w of
        (Inl err, w') \<Rightarrow>
          (if IsNotFound err then ((DoNotRequeue, s), w')
           else ((RequeueWithError err, s), w'))
      | (Inr got, w') \<Rightarrow> ((ContinueReconciling, got), w'))"

text \<open>The result is the pair \<open>(error, bool)\<close> of the source, in its order.\<close>

definition updateSynapseStatus :: "Synapse \<Rightarrow> world \<Rightarrow> (error option \<times> bool) \<times> world" where
  "updateSynapseStatus synapse w =
     (case GetSynapse (Name synapse, Namespace synapse) w of
        (Inl err, w1) \<Rightarrow> ((Some err, False), w1)
      | (Inr current, w1) \<Rightarrow>
          (if Status synapse \<noteq> Status current then
             (case PatchSynapseStatus synapse current w1 of
                (Some err, w2) \<Rightarrow> ((Some err, False), w2)
              | (None, w2) \<Rightarrow> ((None, True), w2))
           else ((None, False), w1)))"

definition setFailedState :: "Synapse \<Rightarrow> string \<Rightarrow> world \<Rightarrow> (error option \<times> Synapse) \<times> world" where
  "setFailedState synapse reason w =
     (let synapse' = synapse\<lparr>Status := (Status synapse)\<lparr>State := ''FAILED'', Reason := reason\<rparr>\<rparr>
      in case updateSynapseStatus synapse' w of
           ((err, _), w') \<Rightarrow> ((err, synapse'), w'))"

text \<open>
  The tail shared by the steps that write Status: an error requeues with the
  error, a patch requeues, otherwise the pipeline continues.
\<close>

definition afterStatusUpdate :: "(error option \<times> bool) \<times> world \<Rightarrow> outcome \<times> world" where
  "afterStatusUpdate res =
     (case res of
        ((Some err, _), w) \<Rightarrow> (RequeueWithError err, w)
      | ((None, has_patched), w) \<Rightarrow>
          (if has_patched then (Requeue, w) else (ContinueReconciling, w)))"

definition setStatusHomeserverConfiguration :: step where
  "setStatusHomeserverConfiguration req w =
     (case getLatestSynapse req emptySynapse w of
        ((r, s), w1) \<Rightarrow>
          if ShouldHaltOrRequeue r then (r, w1)
          else afterStatusUpdate (updateSynapseStatus
                 (s\<lparr>Status := (Status s)\<lparr>HomeserverConfiguration :=
                    (HomeserverConfiguration (Status s))
                      \<lparr>ServerName := ValuesServerName (Values (Homeserver (Spec s))),
                       ReportStats := ValuesReportStats (Values (Homeserver (Spec s)))\<rparr>\<rparr>\<rparr>) w1))"

definition isPostgresOperatorInstalled :: "world \<Rightarrow> bool \<times> world" where
  "isPostgresOperatorInstalled w =
     (case ListPostgresClusters w of (err, w') \<Rightarrow> (err = None, w'))"

section \<open>The steps that write the Synapse Status\<close>

text \<open>
  \<open>postgresSecret.Data\<close> is a \<open>map[string][]byte\<close>; \<open>string(bytes)\<close> is the
  same byte sequence. The five lookups come first, each returning its own
  error; only then are the five fields assigned. \<open>base64encode\<close> is a helper
  of the package that is not part of the sources at hand: it is a parameter.
\<close>

definition updateSynapseStatusDatabase ::
  "(string \<Rightarrow> string) \<Rightarrow> Synapse \<Rightarrow> (string \<rightharpoonup> string) \<Rightarrow> error option \<times> Synapse" where
  "updateSynapseStatusDatabase base64encode s postgresSecretData =
     (case postgresSecretData ''host'' of
        None \<Rightarrow> (Some (ErrorString ''missing host in PostgreSQL Secret''), s)
      | Some host \<Rightarrow>
     (case postgresSecretData ''port'' of
        None \<Rightarrow> (Some (ErrorString ''missing port in PostgreSQL Secret''), s)
      | Some port \<Rightarrow>
     (case postgresSecretData ''dbname'' of
        None \<Rightarrow> (Some (ErrorString ''missing dbname in PostgreSQL Secret''), s)
      | Some _ \<Rightarrow>
     (case postgresSecretData ''user'' of
        None \<Rightarrow> (Some (ErrorString ''missing user in PostgreSQL Secret''), s)
      | Some user \<Rightarrow>
     (case postgresSecretData ''password'' of
        None \<Rightarrow> (Some (ErrorString ''missing password in PostgreSQL Secret''), s)
      | Some password \<Rightarrow>
         (None,
          s\<lparr>Status := (Status s)\<lparr>DatabaseConnectionInfo :=
             (DatabaseConnectionInfo (Status s))
               \<lparr>ConnectionURL := host @ '':'' @ port,
                DatabaseName := ''synapse'',
                User := user,
                Password := base64encode password,
                DBState := ''READY''\<rparr>\<rparr>\<rparr>))))))"

text \<open>
  \<open>updateSynapseStatusWithPostgreSQLInfos\<close>: reads the Secret of the synapse
  user and copies the connection information into Status.
\<close>

definition updateSynapseStatusWithPostgreSQLInfos :: "(string \<Rightarrow> string) \<Rightarrow> step" where
  "updateSynapseStatusWithPostgreSQLInfos base64encode req w =
     (case getLatestSynapse req emptySynapse w of
        ((r, s), w1) \<Rightarrow>
          if ShouldHaltOrRequeue r then (r, w1)
          else
            (case GetSecret (GetPostgresClusterResourceName s @ ''-pguser-synapse'',
                             Namespace s) w1 of
               (Inl err, w2) \<Rightarrow> (RequeueWithError err, w2)
             | (Inr postgresSecretData, w2) \<Rightarrow>
                 (case updateSynapseStatusDatabase base64encode s postgresSecretData of
                    (Some err, _) \<Rightarrow> (RequeueWithError err, w2)
                  | (None, s') \<Rightarrow> afterStatusUpdate (updateSynapseStatus s' w2))))"

definition setSynapseStatusAsRunning :: step where
  "setSynapseStatusAsRunning req w =
     (case getLatestSynapse req emptySynapse w of
        ((r, s), w1) \<Rightarrow>
          if ShouldHaltOrRequeue r then (r, w1)
          else afterStatusUpdate (updateSynapseStatus
                 (s\<lparr>Status := (Status s)\<lparr>NeedsReconcile := False,
                                          State := ''RUNNING'',
                                          Reason := []\<rparr>\<rparr>) w1))"

text \<open>
  The two loops of \<open>updateSynapseStatusBridges\<close> over the listed items; a
  later item that references the Synapse overwrites the name of an earlier
  one.
\<close>

definition markHeisenbridge :: "Heisenbridge \<Rightarrow> Synapse \<Rightarrow> Synapse" where
  "markHeisenbridge h s =
     (if hSynapseName h = Name s then
        s\<lparr>Status := (Status s)\<lparr>Bridges := (Bridges (Status s))
           \<lparr>BridgesHeisenbridge := \<lparr>Enabled = True, BridgeName = hName h\<rparr>\<rparr>\<rparr>\<rparr>
      else s)"

definition markMautrixSignal :: "MautrixSignal \<Rightarrow> Synapse \<Rightarrow> Synapse" where
  "markMautrixSignal ms s =
     (if msSynapseName (msSpec ms) = Name s then
        s\<lparr>Status := (Status s)\<lparr>Bridges := (Bridges (Status s))
           \<lparr>BridgesMautrixSignal := \<lparr>Enabled = True, BridgeName = msName ms\<rparr>\<rparr>\<rparr>\<rparr>
      else s)"

text \<open>The errors of the two \<open>List\<close> calls are not looked at.\<close>

definition updateSynapseStatusBridges :: step where
  "updateSynapseStatusBridges req w =
     (case getLatestSynapse req emptySynapse w of
        ((r, s), w1) \<Rightarrow>
          if ShouldHaltOrRequeue r then (r, w1)
          else
            (case ListHeisenbridges w1 of
               ((_, hItems), w2) \<Rightarrow>
                 (case ListMautrixSignals w2 of
                    ((_, msItems), w3) \<Rightarrow>
                      afterStatusUpdate (updateSynapseStatus
                        (fold markMautrixSignal msItems (fold markHeisenbridge hItems s)) w3))))"

section \<open>The pipeline executor\<close>

text \<open>
  The loop at the end of both \<open>Reconcile\<close> functions: each subreconciler in
  turn, on the cluster the previous one left; the first outcome for which
  \<open>ShouldHaltOrRequeue\<close> holds goes to \<open>Evaluate\<close> and ends the run; after
  the last one, \<open>Evaluate(DoNotRequeue())\<close>.
\<close>

fun runSubreconcilers ::
  "step list \<Rightarrow> NamespacedName \<Rightarrow> world \<Rightarrow> (panic + (Result \<times> error option)) \<times> world" where
  "runSubreconcilers [] req w = (Evaluate DoNotRequeue, w)"
| "runSubreconcilers (f # fs) req w =
     (case f req w of
        (r, w') \<Rightarrow>
          if ShouldHaltOrRequeue r then (Evaluate r, w')
          else runSubreconcilers fs req w')"

text \<open>
  The steps of the Synapse pipeline that reconcile child objects go through
  helpers of the repository that are not among the sources
  (\<open>reconcile.ReconcileResource\<close>, \<open>utils.UpdateConfigMap\<close>); they are
  parameters of \<open>Reconcile\<close>.
\<close>

record SynapseSteps =
  parseInputSynapseConfigMap :: step
  copyInputSynapseConfigMap :: step
  reconcileSynapseConfigMap :: step
  reconcilePostgresClusterConfigMap :: step
  reconcilePostgresClusterCR :: step
  updateSynapseConfigMapForPostgresCluster :: step
  updateSynapseConfigMapForHeisenbridge :: step
  updateSynapseConfigMapForMautrixSignal :: step
  reconcileSynapseServiceAccount :: step
  reconcileSynapseRoleBinding :: step
  reconcileSynapseService :: step
  reconcileSynapsePVC :: step
  reconcileSynapseDeployment :: step

definition postgresOperatorReason :: string where
  "postgresOperatorReason =
     ''Cannot create PostgreSQL instance for synapse. Postgres-operator is not installed.''"

text \<open>
  The part of the Synapse step list after the PostgreSQL block: bridges,
  OpenShift objects, then Service, PVC, Deployment and the terminal step.
\<close>

definition synapseStepsTail :: "SynapseSteps \<Rightarrow> Synapse \<Rightarrow> step list" where
  "synapseStepsTail r synapse =
     (if Enabled (BridgesHeisenbridge (Bridges (Status synapse)))
      then [updateSynapseConfigMapForHeisenbridge r] else [])
     @ (if Enabled (BridgesMautrixSignal (Bridges (Status synapse)))
        then [updateSynapseConfigMapForMautrixSignal r] else [])
     @ (if IsOpenshift (Spec synapse)
        then [reconcileSynapseServiceAccount r, reconcileSynapseRoleBinding r] else [])
     @ [reconcileSynapseService r, reconcileSynapsePVC r, reconcileSynapseDeployment r,
        setSynapseStatusAsRunning]"

definition synapseStepsHead :: "SynapseSteps \<Rightarrow> Synapse \<Rightarrow> step list" where
  "synapseStepsHead r synapse =
     (if ConfigMap (Homeserver (Spec synapse)) \<noteq> None
      then [parseInputSynapseConfigMap r, copyInputSynapseConfigMap r]
      else [setStatusHomeserverConfiguration, reconcileSynapseConfigMap r])
     @ [updateSynapseStatusBridges]"

definition Reconcile ::
  "(string \<Rightarrow> string) \<Rightarrow> SynapseSteps \<Rightarrow> NamespacedName \<Rightarrow> world
     \<Rightarrow> (panic + (Result \<times> error option)) \<times> world" where
  "Reconcile base64encode r req w =
     (case getLatestSynapse req emptySynapse w of
        ((res, synapse), w1) \<Rightarrow>
          if ShouldHaltOrRequeue res then (Evaluate res, w1)
          else if CreateNewPostgreSQL (Spec synapse) then
            (case isPostgresOperatorInstalled w1 of
               (installed, w2) \<Rightarrow>
                 if \<not> installed then
                   (case setFailedState synapse postgresOperatorReason w2 of
                      (_, w3) \<Rightarrow> (Evaluate DoNotRequeue, w3))
                 else
                   runSubreconcilers
                     (synapseStepsHead r synapse
                      @ [reconcilePostgresClusterConfigMap r,
                         reconcilePostgresClusterCR r,
                         updateSynapseStatusWithPostgreSQLInfos base64encode,
                         updateSynapseConfigMapForPostgresCluster r]
                      @ synapseStepsTail r synapse) req w2)
          else
            runSubreconcilers (synapseStepsHead r synapse @ synapseStepsTail r synapse) req w1)"

section \<open>The mautrix-signal controller\<close>

definition getLatestMautrixSignal ::
  "NamespacedName \<Rightarrow> MautrixSignal \<Rightarrow> world \<Rightarrow> (outcome \<times> MautrixSignal) \<times> world" where
  "getLatestMautrixSignal req ms w =
     (case GetMautrixSignal req w of
        (Inl err, w') \<Rightarrow>
          (if IsNotFound err then ((DoNotRequeue, ms), w')
           else ((RequeueWithError err, ms), w'))
      | (Inr got, w') \<Rightarrow> ((ContinueReconciling, got), w'))"

text \<open>
  \<open>utils.ComputeNamespace\<close> is a helper of the repository that is not among
  the sources; \<open>fetchSynapseInstance\<close> takes it as a parameter.
\<close>

definition fetchSynapseInstance ::
  "(string \<Rightarrow> string \<Rightarrow> string) \<Rightarrow> MautrixSignal \<Rightarrow> world \<Rightarrow> (error + Synapse) \<times> world" where
  "fetchSynapseInstance ComputeNamespace ms w =
     GetSynapse (msSynapseName (msSpec ms),
                 ComputeNamespace (msNamespace ms) (msSynapseNamespace (msSpec ms))) w"

text \<open>
  \<open>utils.UpdateSynapseStatus\<close>, the status writer this step commits through,
  is not among the sources either: the step takes it as a parameter.
\<close>

definition triggerSynapseReconciliation ::
  "(string \<Rightarrow> string \<Rightarrow> string) \<Rightarrow> (Synapse \<Rightarrow> world \<Rightarrow> error option \<times> world) \<Rightarrow> step" where
  "triggerSynapseReconciliation ComputeNamespace UpdateSynapseStatus req w =
     (case getLatestMautrixSignal req emptyMautrixSignal w of
        ((r, ms), w1) \<Rightarrow>
          if ShouldHaltOrRequeue r then (r, w1)
          else
            (case fetchSynapseInstance ComputeNamespace ms w1 of
               (Inl err, w2) \<Rightarrow> (RequeueWithError err, w2)
             | (Inr s, w2) \<Rightarrow>
                 (case UpdateSynapseStatus (s\<lparr>Status := (Status s)\<lparr>NeedsReconcile := True\<rparr>\<rparr>) w2 of
                    (Some err, w3) \<Rightarrow> (RequeueWithError err, w3)
                  | (None, w3) \<Rightarrow> (ContinueReconciling, w3))))"

text \<open>
  Modelled from the spec: \<open>utils.UpdateSynapseStatus\<close> (package
  \<open>helpers/utils\<close>) is missing from the sources. It is the Status Convergence
  Writer of the spec, returning the error only: re-read the stored entity,
  compare the Status, patch it when it differs.
\<close>

definition UpdateSynapseStatus :: "Synapse \<Rightarrow> world \<Rightarrow> error option \<times> world" where
  "UpdateSynapseStatus s w =
     (case updateSynapseStatus s w of ((err, _), w') \<Rightarrow> (err, w'))"


text \<open>
  The remaining steps of the mautrix-signal pipeline are parameters, as for
  Synapse.
\<close>

record MautrixSignalSteps =
  buildMautrixSignalStatus :: step
  copyInputMautrixSignalConfigMap :: step
  configureMautrixSignalConfigMap :: step
  reconcileMautrixSignalConfigMap :: step
  reconcileMautrixSignalServiceAccount :: step
  reconcileMautrixSignalRoleBinding :: step
  reconcileSignaldPVC :: step
  reconcileSignaldDeployment :: step
  reconcileMautrixSignalService :: step
  reconcileMautrixSignalPVC :: step
  reconcileMautrixSignalDeployment :: step

definition subreconcilersForMautrixSignal ::
  "(string \<Rightarrow> string \<Rightarrow> string) \<Rightarrow> (Synapse \<Rightarrow> world \<Rightarrow> error option \<times> world)
     \<Rightarrow> MautrixSignalSteps \<Rightarrow> MautrixSignal \<Rightarrow> step list" where
  "subreconcilersForMautrixSignal cns upd r ms =
     [triggerSynapseReconciliation cns upd, buildMautrixSignalStatus r]
     @ (if msConfigMapName (msSpec ms) \<noteq> []
        then [copyInputMautrixSignalConfigMap r, configureMautrixSignalConfigMap r]
        else [reconcileMautrixSignalConfigMap r])
     @ (if msIsOpenshift (msStatus ms)
        then [reconcileMautrixSignalServiceAccount r, reconcileMautrixSignalRoleBinding r]
        else [])
     @ [reconcileSignaldPVC r, reconcileSignaldDeployment r,
        reconcileMautrixSignalService r, reconcileMautrixSignalPVC r,
        reconcileMautrixSignalDeployment r]"

definition ReconcileMautrixSignal ::
  "(string \<Rightarrow> string \<Rightarrow> string) \<Rightarrow> (Synapse \<Rightarrow> world \<Rightarrow> error option \<times> world)
     \<Rightarrow> MautrixSignalSteps \<Rightarrow> NamespacedName \<Rightarrow> world
     \<Rightarrow> (panic + (Result \<times> error option)) \<times> world" where
  "ReconcileMautrixSignal cns upd r req w =
     (case getLatestMautrixSignal req emptyMautrixSignal w of
        ((res, ms), w1) \<Rightarrow>
          if ShouldHaltOrRequeue res then (Evaluate res, w1)
          else runSubreconcilers (subreconcilersForMautrixSignal cns upd r ms) req w1)"

section \<open>Configuration documents\<close>

text \<open>
  A parsed YAML document is a Go \<open>map[string]interface{}\<close>. The dynamic
  types a value can have are the constructors of \<open>yaml\<close>: the scalars,
  \<open>[]interface{}\<close> (\<open>YSeq\<close>), \<open>map[interface{}]interface{}\<close> (\<open>YMap\<close>,
  what the parser builds for a nested section), and the Go types the
  controllers themselves store: \<open>[]string\<close> (\<open>YStrings\<close>),
  \<open>map[string]string\<close> (\<open>YStringMap\<close>) and \<open>map[string]interface{}\<close>
  (\<open>YObject\<close>). A type assertion succeeds on its own constructor only.
  The keys of a \<open>YMap\<close> are the hashable scalars.
\<close>

datatype ykey = KStr string | KInt int | KBool bool | KNull

datatype yaml =
    YNull
  | YBool bool
  | YInt int
  | YStr string
  | YSeq "yaml list"
  | YMap "ykey \<Rightarrow> yaml option"
  | YStrings "string list"
  | YStringMap "string \<Rightarrow> string option"
  | YObject "string \<Rightarrow> yaml option"

type_synonym document = "string \<Rightarrow> yaml option"

text \<open>
  \<open>addAppServiceToHomeserver\<close>: the assertion \<open>.([]string)\<close> on the value of
  \<open>app_service_config_files\<close>; the map is updated in place, the model
  returns it.
\<close>

definition addAppServiceToHomeserver :: "document \<Rightarrow> string \<Rightarrow> document" where
  "addAppServiceToHomeserver homeserver configFilePath =
     (case homeserver ''app_service_config_files'' of
        Some (YStrings homeserverAppService) \<Rightarrow>
          homeserver(''app_service_config_files'' \<mapsto>
                       YStrings (homeserverAppService @ [configFilePath]))
      | _ \<Rightarrow>
          homeserver(''app_service_config_files'' \<mapsto> YStrings [configFilePath]))"

definition updateHomeserverWithHeisenbridgeInfos :: "document \<Rightarrow> error option \<times> document" where
  "updateHomeserverWithHeisenbridgeInfos homeserver =
     (None, addAppServiceToHomeserver homeserver ''/data-heisenbridge/heisenbridge.yaml'')"

definition updateHomeserverWithMautrixSignalInfos :: "document \<Rightarrow> error option \<times> document" where
  "updateHomeserverWithMautrixSignalInfos homeserver =
     (None, addAppServiceToHomeserver homeserver ''/data-mautrixsignal/registration.yaml'')"

text \<open>The assertion \<open>.(map[interface{}]interface{})\<close> on a looked-up value.\<close>

fun asMap :: "yaml option \<Rightarrow> (ykey \<Rightarrow> yaml option) option" where
  "asMap (Some (YMap m)) = Some m"
| "asMap _ = None"

definition parseError :: "string \<Rightarrow> error" where
  "parseError sect =
     ErrorString (''cannot parse mautrix-signal config.yaml: error parsing '' @ [CHR 39]
                  @ sect @ [CHR 39] @ '' section'')"

text \<open>
  \<open>updateMautrixSignalData\<close>. Each section is edited in place before the
  next one is looked up, so an error leaves the earlier edits in the
  document. \<open>utils.ComputeFQDN\<close> and \<open>utils.ComputeNamespace\<close> are not among
  the sources: they are parameters.
\<close>

definition updateMautrixSignalData ::
  "(string \<Rightarrow> string \<Rightarrow> string) \<Rightarrow> (string \<Rightarrow> string \<Rightarrow> string) \<Rightarrow> MautrixSignal
     \<Rightarrow> document \<Rightarrow> error option \<times> document" where
  "updateMautrixSignalData ComputeFQDN ComputeNamespace ms config =
     (let synapseName = msSynapseName (msSpec ms);
          synapseNamespace = ComputeNamespace (msNamespace ms) (msSynapseNamespace (msSpec ms));
          synapseServerName = msSynapseServerName (msStatus ms)
      in
      case asMap (config ''homeserver'') of
        None \<Rightarrow> (Some (parseError ''homeserver''), config)
      | Some configHomeserver \<Rightarrow>
      let config1 = config(''homeserver'' \<mapsto> YMap (configHomeserver
            (KStr ''address'' \<mapsto>
               YStr (''http://'' @ ComputeFQDN synapseName synapseNamespace @ '':8008''),
             KStr ''domain'' \<mapsto> YStr synapseServerName)))
      in
      case asMap (config1 ''appservice'') of
        None \<Rightarrow> (Some (parseError ''appservice''), config1)
      | Some configAppservice \<Rightarrow>
      let config2 = config1(''appservice'' \<mapsto> YMap (configAppservice
            (KStr ''address'' \<mapsto>
               YStr (''http://'' @ ComputeFQDN (msName ms) (msNamespace ms) @ '':29328''))))
      in
      case asMap (config2 ''signal'') of
        None \<Rightarrow> (Some (parseError ''signal''), config2)
      | Some configSignal \<Rightarrow>
      let config3 = config2(''signal'' \<mapsto> YMap (configSignal
            (KStr ''socket_path'' \<mapsto> YStr ''/signald/signald.sock'')))
      in
      case asMap (config3 ''bridge'') of
        None \<Rightarrow> (Some (parseError ''bridge''), config3)
      | Some configBridge \<Rightarrow>
      let config4 = config3(''bridge'' \<mapsto> YMap (configBridge
            (KStr ''permissions'' \<mapsto>
               YStringMap [''*'' \<mapsto> ''relay'',
                           synapseServerName \<mapsto> ''user'',
                           ''@admin:'' @ synapseServerName \<mapsto> ''admin''])))
      in
      case asMap (config4 ''logging'') of
        None \<Rightarrow> (Some (parseError ''logging''), config4)
      | Some configLogging \<Rightarrow>
      case asMap (configLogging (KStr ''handlers'')) of
        None \<Rightarrow> (Some (parseError ''logging/handlers''), config4)
      | Some configLoggingHandlers \<Rightarrow>
      case asMap (configLoggingHandlers (KStr ''file'')) of
        None \<Rightarrow> (Some (parseError ''logging/handlers/file''), config4)
      | Some configLoggingHandlersFile \<Rightarrow>
        (None,
         config4(''logging'' \<mapsto> YMap (configLogging
           (KStr ''handlers'' \<mapsto> YMap (configLoggingHandlers
              (KStr ''file'' \<mapsto> YMap (configLoggingHandlersFile
                 (KStr ''filename'' \<mapsto> YStr ''/data/mautrix-signal.log'')))))))))"

section \<open>Vocabulary of the properties\<close>

text \<open>
  A prefix of the step list runs through when every step of it, run in the
  order of the list on the cluster its predecessor left, gives an outcome for
  which \<open>ShouldHaltOrRequeue\<close> is false; the result is the cluster after the
  last of them.
\<close>

fun allContinue :: "step list \<Rightarrow> NamespacedName \<Rightarrow> world \<Rightarrow> world option" where
  "allContinue [] req w = Some w"
| "allContinue (f # fs) req w =
     (case f req w of
        (r, w') \<Rightarrow> if ShouldHaltOrRequeue r then None else allContinue fs req w')"

text \<open>
  The binding at a path of keys in a document: through nested
  \<open>map[interface{}]interface{}\<close> and \<open>map[string]interface{}\<close> values.
\<close>

fun lookupPath :: "ykey list \<Rightarrow> yaml \<Rightarrow> yaml option" where
  "lookupPath [] v = Some v"
| "lookupPath (k # ks) (YMap m) =
     (case m k of None \<Rightarrow> None | Some v \<Rightarrow> lookupPath ks v)"
| "lookupPath (KStr k # ks) (YObject m) =
     (case m k of None \<Rightarrow> None | Some v \<Rightarrow> lookupPath ks v)"
| "lookupPath (k # ks) _ = None"

text \<open>The six bindings that \<open>updateMautrixSignalData\<close> assigns.\<close>

definition ownedPaths :: "ykey list list" where
  "ownedPaths =
     [[KStr ''homeserver'', KStr ''address''],
      [KStr ''homeserver'', KStr ''domain''],
      [KStr ''appservice'', KStr ''address''],
      [KStr ''signal'', KStr ''socket_path''],
      [KStr ''bridge'', KStr ''permissions''],
      [KStr ''logging'', KStr ''handlers'', KStr ''file'', KStr ''filename'']]"

text \<open>Concrete inputs on which the properties are evaluated.\<close>

definition secret0 :: "string \<Rightarrow> string option" where
  "secret0 = [''host'' \<mapsto> ''db'', ''port'' \<mapsto> ''5432'', ''dbname'' \<mapsto> ''x'',
              ''user'' \<mapsto> ''u'', ''password'' \<mapsto> ''pw'']"

definition synapse0 :: Synapse where
  "synapse0 = emptySynapse\<lparr>Name := ''synapse'', Namespace := ''default''\<rparr>"

definition running0 :: Synapse where
  "running0 = synapse0\<lparr>Status := (Status synapse0)\<lparr>State := ''RUNNING''\<rparr>\<rparr>"


definition ms0 :: MautrixSignal where
  "ms0 = emptyMautrixSignal
     \<lparr>msName := ''signal'', msNamespace := ''default'',
      msSpec := (msSpec emptyMautrixSignal)\<lparr>msSynapseName := ''synapse''\<rparr>\<rparr>"

definition world0 :: world where
  "world0 =
     \<lparr>synapses = [(''synapse'', ''default'') \<mapsto> synapse0],
      mautrixsignals = [ms0],
      heisenbridges = [\<lparr>hName = ''irc'', hNamespace = ''default'', hSynapseName = ''synapse''\<rparr>],
      secrets = Map.empty,
      postgresClusterKind = False,
      faults = []\<rparr>"

definition conflict :: error where
  "conflict = ApiError ''the object has been modified''"

text \<open>A step that would be seen if it ran: it installs the PostgresCluster kind.\<close>

definition markerStep :: step where
  "markerStep req w = (ContinueReconciling, w\<lparr>postgresClusterKind := True\<rparr>)"

definition haltStep :: step where
  "haltStep req w = (RequeueWithError conflict, w)"

definition continueStep :: step where
  "continueStep req w = (ContinueReconciling, w\<lparr>heisenbridges := []\<rparr>)"

definition synapseSteps0 :: SynapseSteps where
  "synapseSteps0 =
     \<lparr>parseInputSynapseConfigMap = markerStep,
      copyInputSynapseConfigMap = markerStep,
      reconcileSynapseConfigMap = markerStep,
      reconcilePostgresClusterConfigMap = markerStep,
      reconcilePostgresClusterCR = markerStep,
      updateSynapseConfigMapForPostgresCluster = markerStep,
      updateSynapseConfigMapForHeisenbridge = markerStep,
      updateSynapseConfigMapForMautrixSignal = markerStep,
      reconcileSynapseServiceAccount = markerStep,
      reconcileSynapseRoleBinding = markerStep,
      reconcileSynapseService = markerStep,
      reconcileSynapsePVC = markerStep,
      reconcileSynapseDeployment = markerStep\<rparr>"

definition mautrixSignalSteps0 :: MautrixSignalSteps where
  "mautrixSignalSteps0 =
     \<lparr>buildMautrixSignalStatus = markerStep,
      copyInputMautrixSignalConfigMap = markerStep,
      configureMautrixSignalConfigMap = markerStep,
      reconcileMautrixSignalConfigMap = markerStep,
      reconcileMautrixSignalServiceAccount = markerStep,
      reconcileMautrixSignalRoleBinding = markerStep,
      reconcileSignaldPVC = markerStep,
      reconcileSignaldDeployment = markerStep,
      reconcileMautrixSignalService = markerStep,
      reconcileMautrixSignalPVC = markerStep,
      reconcileMautrixSignalDeployment = markerStep\<rparr>"

text \<open>A namespace of a reference that defaults to the referring object's.\<close>

definition namespaceOrDefault :: "string \<Rightarrow> string \<Rightarrow> string" where
  "namespaceOrDefault defaultNamespace newNamespace =
     (if newNamespace \<noteq> [] then newNamespace else defaultNamespace)"

text \<open>
  The application services a document registers as a \<open>[]string\<close>: none when
  the key is absent or holds a value of another type.
\<close>

definition registeredAppServices :: "document \<Rightarrow> string list" where
  "registeredAppServices homeserver =
     (case homeserver ''app_service_config_files'' of
        Some (YStrings xs) \<Rightarrow> xs
      | _ \<Rightarrow> [])"

definition clusterFQDN :: "string \<Rightarrow> string \<Rightarrow> string" where
  "clusterFQDN name namespace = name @ ''.'' @ namespace @ ''.svc.cluster.local''"

definition config0 :: document where
  "config0 =
     [''homeserver'' \<mapsto> YMap [KStr ''address'' \<mapsto> YStr ''https://example.com'',
                                  KStr ''verify_ssl'' \<mapsto> YBool True],
      ''appservice'' \<mapsto> YMap [KStr ''port'' \<mapsto> YInt 29328],
      ''signal'' \<mapsto> YMap Map.empty,
      ''bridge'' \<mapsto> YMap [KStr ''permissions'' \<mapsto> YMap Map.empty],
      ''logging'' \<mapsto> YMap [KStr ''version'' \<mapsto> YInt 1,
        KStr ''handlers'' \<mapsto> YMap [KStr ''file'' \<mapsto> YMap Map.empty]],
      ''metrics'' \<mapsto> YMap [KStr ''enabled'' \<mapsto> YBool False]]"

section \<open>Properties of updateSynapseStatusDatabase\<close>

text \<open>
  Claim C10. updateSynapseStatusDatabase returns an error if and only if one
  of the keys host, port, dbname, user, password is absent from the secret's
  data. When it returns an error the Synapse (hence its Status) is unchanged.
  When it returns nil, of the whole Synapse only DatabaseConnectionInfo is
  assigned: ConnectionURL is host, a colon, port; DatabaseName is "synapse";
  User is the user value; Password is the base64 encoding of the password
  value; State is "READY".
\<close>

theorem updateSynapseStatusDatabase_spec:
  "(fst (updateSynapseStatusDatabase b64 s d) \<noteq> None \<longleftrightarrow>
      (\<exists>k \<in> {''host'', ''port'', ''dbname'', ''user'', ''password''}. d k = None))
   \<and> (fst (updateSynapseStatusDatabase b64 s d) \<noteq> None \<longrightarrow>
        snd (updateSynapseStatusDatabase b64 s d) = s)
   \<and> (fst (updateSynapseStatusDatabase b64 s d) = None \<longrightarrow>
        (\<exists>host port user password.
           d ''host'' = Some host \<and> d ''port'' = Some port \<and>
           d ''user'' = Some user \<and> d ''password'' = Some password \<and>
           snd (updateSynapseStatusDatabase b64 s d) =
             s\<lparr>Status := (Status s)\<lparr>DatabaseConnectionInfo :=
               \<lparr>ConnectionURL = host @ '':'' @ port,
                DatabaseName = ''synapse'',
                User = user,
                Password = b64 password,
                DBState = ''READY''\<rparr>\<rparr>\<rparr>))"
  by (auto simp: updateSynapseStatusDatabase_def split: option.splits)

theorem updateSynapseStatusDatabase_spec_witness:
  "fst (updateSynapseStatusDatabase (\<lambda>p. ''b64:'' @ p) emptySynapse secret0) = None
   \<and> DatabaseConnectionInfo (Status (snd
         (updateSynapseStatusDatabase (\<lambda>p. ''b64:'' @ p) emptySynapse secret0))) =
        \<lparr>ConnectionURL = ''db:5432'', DatabaseName = ''synapse'', User = ''u'',
         Password = ''b64:pw'', DBState = ''READY''\<rparr>
   \<and> fst (updateSynapseStatusDatabase (\<lambda>p. ''b64:'' @ p) emptySynapse
           (secret0(''port'' := None))) \<noteq> None
   \<and> snd (updateSynapseStatusDatabase (\<lambda>p. ''b64:'' @ p) emptySynapse
           (secret0(''port'' := None))) = emptySynapse"
  using updateSynapseStatusDatabase_spec [of "\<lambda>p. ''b64:'' @ p" emptySynapse secret0]
        updateSynapseStatusDatabase_spec
          [of "\<lambda>p. ''b64:'' @ p" emptySynapse "secret0(''port'' := None)"]
  by (simp add: secret0_def)

section \<open>The object store: what a call changes\<close>

lemma nextFault_eq: "nextFault w = (f, w') \<Longrightarrow> w' = w\<lparr>faults := tl (faults w)\<rparr>"
  by (cases w) (auto simp: nextFault_def split: list.splits)

lemma GetSynapse_world: "GetSynapse k w = (res, w') \<Longrightarrow> w' = w\<lparr>faults := tl (faults w)\<rparr>"
  by (auto simp: GetSynapse_def split: prod.splits option.splits dest: nextFault_eq)

lemma GetSynapse_Inr: "GetSynapse k w = (Inr s, w') \<Longrightarrow> synapses w' k = Some s"
  by (auto simp: GetSynapse_def split: prod.splits option.splits dest: nextFault_eq)



lemma PatchSynapseStatus_ok:
  "PatchSynapseStatus c cur w = (None, w') \<Longrightarrow> synapses w (Name c, Namespace c) = Some stored \<Longrightarrow>
   synapses w' = (synapses w)((Name c, Namespace c) \<mapsto> stored\<lparr>Status := Status c\<rparr>)"
  by (auto simp: PatchSynapseStatus_def split: prod.splits option.splits dest: nextFault_eq)



text \<open>
  When the Synapse status writer returns no error, the stored entity carries
  the candidate's Status and the Spec it had, whether a patch was needed or
  not.
\<close>

lemma updateSynapseStatus_stored:
  assumes "updateSynapseStatus c w = ((None, b), w')"
  shows "\<exists>old. synapses w (Name c, Namespace c) = Some old
           \<and> synapses w' (Name c, Namespace c) = Some (old\<lparr>Status := Status c\<rparr>)"
proof (cases "GetSynapse (Name c, Namespace c) w")
  case (Pair res w1)
  show ?thesis
  proof (cases res)
    case (Inl e)
    with Pair assms show ?thesis by (simp add: updateSynapseStatus_def)
  next
    case (Inr cur)
    with Pair have g: "GetSynapse (Name c, Namespace c) w = (Inr cur, w1)" by simp
    have w1: "w1 = w\<lparr>faults := tl (faults w)\<rparr>" by (rule GetSynapse_world [OF g])
    have cur: "synapses w1 (Name c, Namespace c) = Some cur" by (rule GetSynapse_Inr [OF g])
    show ?thesis
    proof (cases "Status c = Status cur")
      case True
      with g assms have "w' = w1" by (simp add: updateSynapseStatus_def)
      with cur w1 True show ?thesis by simp
    next
      case False
      with g assms have p: "PatchSynapseStatus c cur w1 = (None, w')"
        by (auto simp: updateSynapseStatus_def split: prod.splits option.splits)
      from PatchSynapseStatus_ok [OF p cur] cur w1 show ?thesis by simp
    qed
  qed
qed


section \<open>The status convergence writer\<close>





section \<open>The pipeline executor stops at the first outcome that is not Continue\<close>

text \<open>
  Claim C1. The executor runs the steps in the order of the list, each on the
  cluster its predecessor left. For every list of steps and every step f in
  it (the list is pre, then f, then post): if the steps before f all
  continue and f returns an outcome for which ShouldHaltOrRequeue holds (a
  result that is not nil, or an error), then what the executor returns is
  Evaluate of that outcome, and the cluster is the one f left: whatever the
  later steps are, none of them is run. When the outcome carries a result,
  Evaluate returns exactly that result and that error.
\<close>

theorem runSubreconcilers_stops_at_first:
  "allContinue pre req w = Some w1 \<Longrightarrow> f req w1 = (r, w2) \<Longrightarrow> ShouldHaltOrRequeue r \<Longrightarrow>
   runSubreconcilers (pre @ f # post) req w = (Evaluate r, w2)
   \<and> (\<forall>res err. r = (Some res, err) \<longrightarrow>
         runSubreconcilers (pre @ f # post) req w = (Inr (res, err), w2))"
proof (induction pre arbitrary: w)
  case Nil
  then show ?case by simp
next
  case (Cons g pre)
  obtain r' w' where g: "g req w = (r', w')" by (cases "g req w")
  with Cons.prems(1) have nh: "\<not> ShouldHaltOrRequeue r'"
    and ac: "allContinue pre req w' = Some w1"
    by (auto split: if_splits)
  from Cons.IH [OF ac Cons.prems(2) Cons.prems(3)] g nh show ?case by simp
qed

theorem runSubreconcilers_stops_at_first_witness:
  "allContinue [continueStep] (''synapse'', ''default'') world0
     = Some (world0\<lparr>heisenbridges := []\<rparr>)
   \<and> haltStep (''synapse'', ''default'') (world0\<lparr>heisenbridges := []\<rparr>)
     = (RequeueWithError conflict, world0\<lparr>heisenbridges := []\<rparr>)
   \<and> ShouldHaltOrRequeue (RequeueWithError conflict)
   \<and> runSubreconcilers [continueStep, haltStep, markerStep] (''synapse'', ''default'') world0
     = (Inr (\<lparr>ResultRequeue = True, ResultRequeueAfter = 0\<rparr>, Some conflict),
        world0\<lparr>heisenbridges := []\<rparr>)
   \<and> postgresClusterKind (snd (runSubreconcilers [continueStep, haltStep, markerStep]
        (''synapse'', ''default'') world0)) = False"
  using runSubreconcilers_stops_at_first [of "[continueStep]" "(''synapse'', ''default'')" world0
          "world0\<lparr>heisenbridges := []\<rparr>" haltStep "RequeueWithError conflict"
          "world0\<lparr>heisenbridges := []\<rparr>" "[markerStep]"]
  by (simp add: continueStep_def haltStep_def ContinueReconciling_def RequeueWithError_def
      world0_def)

section \<open>A failed initial fetch\<close>

text \<open>
  Claim C5. In both controllers, when the initial fetch of the entity fails
  with not-found, the run returns a result with Requeue false and a nil
  error; when it fails with any other error, the run returns a result with
  Requeue true and that error. No step is run: the cluster is the one the
  fetch left.
\<close>

theorem Reconcile_fetch_failure:
  "(GetSynapse req w = (Inl e, w') \<longrightarrow>
      Reconcile b64 r req w =
        (if IsNotFound e
         then Inr (\<lparr>ResultRequeue = False, ResultRequeueAfter = 0\<rparr>, None)
         else Inr (\<lparr>ResultRequeue = True, ResultRequeueAfter = 0\<rparr>, Some e), w'))
   \<and> (GetMautrixSignal req w = (Inl e, w') \<longrightarrow>
      ReconcileMautrixSignal cns upd rm req w =
        (if IsNotFound e
         then Inr (\<lparr>ResultRequeue = False, ResultRequeueAfter = 0\<rparr>, None)
         else Inr (\<lparr>ResultRequeue = True, ResultRequeueAfter = 0\<rparr>, Some e), w'))"
  by (simp add: Reconcile_def ReconcileMautrixSignal_def getLatestSynapse_def
      getLatestMautrixSignal_def DoNotRequeue_def RequeueWithError_def)

theorem Reconcile_fetch_failure_witness:
  "Reconcile id synapseSteps0 (''gone'', ''default'') world0 =
     (Inr (\<lparr>ResultRequeue = False, ResultRequeueAfter = 0\<rparr>, None), world0)
   \<and> ReconcileMautrixSignal namespaceOrDefault UpdateSynapseStatus mautrixSignalSteps0
        (''gone'', ''default'') world0 =
     (Inr (\<lparr>ResultRequeue = False, ResultRequeueAfter = 0\<rparr>, None), world0)
   \<and> Reconcile id synapseSteps0 (''synapse'', ''default'')
        (world0\<lparr>faults := [Some conflict]\<rparr>) =
     (Inr (\<lparr>ResultRequeue = True, ResultRequeueAfter = 0\<rparr>, Some conflict), world0)
   \<and> ReconcileMautrixSignal namespaceOrDefault UpdateSynapseStatus mautrixSignalSteps0
        (''signal'', ''default'') (world0\<lparr>faults := [Some conflict]\<rparr>) =
     (Inr (\<lparr>ResultRequeue = True, ResultRequeueAfter = 0\<rparr>, Some conflict), world0)"
  using Reconcile_fetch_failure [of "(''gone'', ''default'')" world0 NotFoundError world0
          id synapseSteps0 namespaceOrDefault UpdateSynapseStatus mautrixSignalSteps0]
        Reconcile_fetch_failure [of "(''synapse'', ''default'')"
          "world0\<lparr>faults := [Some conflict]\<rparr>" conflict world0
          id synapseSteps0 namespaceOrDefault UpdateSynapseStatus mautrixSignalSteps0]
        Reconcile_fetch_failure [of "(''signal'', ''default'')"
          "world0\<lparr>faults := [Some conflict]\<rparr>" conflict world0
          id synapseSteps0 namespaceOrDefault UpdateSynapseStatus mautrixSignalSteps0]
  by (simp add: GetSynapse_def GetMautrixSignal_def nextFault_def world0_def ms0_def
      emptyMautrixSignal_def msKey_def conflict_def)


section \<open>A PostgreSQL instance is requested and the postgres-operator is absent\<close>




section \<open>The terminal success step\<close>

text \<open>
  Claim C6. setSynapseStatusAsRunning hands to the status writer the freshly
  fetched Synapse with three Status fields assigned: NeedsReconcile false,
  State "RUNNING", Reason empty. Whenever the writer commits (it returns nil
  and patched = true), the step requeues and the stored entity's Status is
  the fetched Status with exactly these three fields set, every other Status
  field and the Spec being as fetched.
\<close>

theorem setSynapseStatusAsRunning_commits:
  "GetSynapse req w = (Inr s, w1) \<Longrightarrow>
   setSynapseStatusAsRunning req w =
     afterStatusUpdate (updateSynapseStatus
       (s\<lparr>Status := (Status s)\<lparr>NeedsReconcile := False, State := ''RUNNING'',
                                Reason := []\<rparr>\<rparr>) w1)
   \<and> (\<forall>w2. updateSynapseStatus
              (s\<lparr>Status := (Status s)\<lparr>NeedsReconcile := False, State := ''RUNNING'',
                                       Reason := []\<rparr>\<rparr>) w1 = ((None, True), w2) \<longrightarrow>
          setSynapseStatusAsRunning req w = (Requeue, w2)
          \<and> (\<exists>old. synapses w1 (Name s, Namespace s) = Some old
                \<and> synapses w2 (Name s, Namespace s) =
                    Some (old\<lparr>Status := (Status s)\<lparr>NeedsReconcile := False,
                                                     State := ''RUNNING'',
                                                     Reason := []\<rparr>\<rparr>)))"
proof -
  assume g: "GetSynapse req w = (Inr s, w1)"
  let ?cand = "s\<lparr>Status := (Status s)\<lparr>NeedsReconcile := False, State := ''RUNNING'',
                                      Reason := []\<rparr>\<rparr>"
  have step: "setSynapseStatusAsRunning req w = afterStatusUpdate (updateSynapseStatus ?cand w1)"
    using g by (simp add: setSynapseStatusAsRunning_def getLatestSynapse_def
        ContinueReconciling_def)
  have commit: "setSynapseStatusAsRunning req w = (Requeue, w2)
          \<and> (\<exists>old. synapses w1 (Name s, Namespace s) = Some old
                \<and> synapses w2 (Name s, Namespace s) = Some (old\<lparr>Status := Status ?cand\<rparr>))"
    if u: "updateSynapseStatus ?cand w1 = ((None, True), w2)" for w2
    using updateSynapseStatus_stored [OF u] step u by (simp add: afterStatusUpdate_def)
  from step commit show ?thesis by simp
qed

theorem setSynapseStatusAsRunning_commits_witness:
  "setSynapseStatusAsRunning (''synapse'', ''default'')
     (world0\<lparr>synapses := [(''synapse'', ''default'') \<mapsto>
        synapse0\<lparr>Status := (Status synapse0)\<lparr>State := ''FAILED'', Reason := ''no database'',
                                               NeedsReconcile := True\<rparr>\<rparr>]\<rparr>)
   = (Requeue, world0\<lparr>synapses := [(''synapse'', ''default'') \<mapsto> running0]\<rparr>)"
  using setSynapseStatusAsRunning_commits [of "(''synapse'', ''default'')"
     "world0\<lparr>synapses := [(''synapse'', ''default'') \<mapsto>
        synapse0\<lparr>Status := (Status synapse0)\<lparr>State := ''FAILED'', Reason := ''no database'',
                                               NeedsReconcile := True\<rparr>\<rparr>]\<rparr>"
     "synapse0\<lparr>Status := (Status synapse0)\<lparr>State := ''FAILED'', Reason := ''no database'',
                                               NeedsReconcile := True\<rparr>\<rparr>"
     "world0\<lparr>synapses := [(''synapse'', ''default'') \<mapsto>
        synapse0\<lparr>Status := (Status synapse0)\<lparr>State := ''FAILED'', Reason := ''no database'',
                                               NeedsReconcile := True\<rparr>\<rparr>]\<rparr>"]
  by (simp add: GetSynapse_def updateSynapseStatus_def PatchSynapseStatus_def nextFault_def
      afterStatusUpdate_def world0_def running0_def synapse0_def emptySynapse_def)

section \<open>The dependency trigger\<close>

text \<open>
  Claim C7. Once the MautrixSignal itself is fetched, triggerSynapseReconciliation
  reads the Synapse it references (by the referenced name, in the computed
  namespace). If that read fails, the step returns RequeueWithError with the
  read's error. Otherwise it sets Status.NeedsReconcile of that Synapse to
  true and hands it to the status writer; if the writer fails, the step
  returns RequeueWithError with the writer's error, and only if it succeeds
  does the step continue. RequeueWithError is an outcome on which the
  executor stops.
\<close>

theorem triggerSynapseReconciliation_spec:
  "GetMautrixSignal req w = (Inr ms, w1) \<Longrightarrow>
   (\<forall>e w2. fetchSynapseInstance cns ms w1 = (Inl e, w2) \<longrightarrow>
       triggerSynapseReconciliation cns writer req w = (RequeueWithError e, w2))
   \<and> (\<forall>s w2. fetchSynapseInstance cns ms w1 = (Inr s, w2) \<longrightarrow>
        synapses w2 (msSynapseName (msSpec ms),
                     cns (msNamespace ms) (msSynapseNamespace (msSpec ms))) = Some s
        \<and> (\<forall>e w3. writer (s\<lparr>Status := (Status s)\<lparr>NeedsReconcile := True\<rparr>\<rparr>) w2 = (Some e, w3) \<longrightarrow>
              triggerSynapseReconciliation cns writer req w = (RequeueWithError e, w3))
        \<and> (\<forall>w3. writer (s\<lparr>Status := (Status s)\<lparr>NeedsReconcile := True\<rparr>\<rparr>) w2 = (None, w3) \<longrightarrow>
              triggerSynapseReconciliation cns writer req w = (ContinueReconciling, w3)))
   \<and> (\<forall>e. ShouldHaltOrRequeue (RequeueWithError e))
   \<and> \<not> ShouldHaltOrRequeue ContinueReconciling"
  by (auto simp: triggerSynapseReconciliation_def getLatestMautrixSignal_def
      fetchSynapseInstance_def ContinueReconciling_def RequeueWithError_def
      dest: GetSynapse_Inr)

theorem triggerSynapseReconciliation_spec_witness:
  "triggerSynapseReconciliation namespaceOrDefault UpdateSynapseStatus
     (''signal'', ''default'') world0
   = (ContinueReconciling,
      world0\<lparr>synapses := [(''synapse'', ''default'') \<mapsto>
        synapse0\<lparr>Status := (Status synapse0)\<lparr>NeedsReconcile := True\<rparr>\<rparr>]\<rparr>)
   \<and> triggerSynapseReconciliation namespaceOrDefault UpdateSynapseStatus
     (''signal'', ''default'') (world0\<lparr>faults := [None, Some conflict]\<rparr>)
   = (RequeueWithError conflict, world0)
   \<and> triggerSynapseReconciliation namespaceOrDefault UpdateSynapseStatus
     (''signal'', ''default'') (world0\<lparr>faults := [None, None, None, Some conflict]\<rparr>)
   = (RequeueWithError conflict, world0)"
  using triggerSynapseReconciliation_spec [of "(''signal'', ''default'')" world0 ms0 world0
          namespaceOrDefault UpdateSynapseStatus]
        triggerSynapseReconciliation_spec [of "(''signal'', ''default'')"
          "world0\<lparr>faults := [None, Some conflict]\<rparr>" ms0
          "world0\<lparr>faults := [Some conflict]\<rparr>" namespaceOrDefault UpdateSynapseStatus]
        triggerSynapseReconciliation_spec [of "(''signal'', ''default'')"
          "world0\<lparr>faults := [None, None, None, Some conflict]\<rparr>" ms0
          "world0\<lparr>faults := [None, None, Some conflict]\<rparr>"
          namespaceOrDefault UpdateSynapseStatus]
  by (simp add: GetMautrixSignal_def GetSynapse_def fetchSynapseInstance_def
      UpdateSynapseStatus_def updateSynapseStatus_def PatchSynapseStatus_def nextFault_def
      namespaceOrDefault_def world0_def ms0_def emptyMautrixSignal_def msKey_def
      synapse0_def emptySynapse_def)


section \<open>List errors while scanning for bridges\<close>

text \<open>
  The status writer and the tail of a step that follows it do not look at
  the listed bridges, and leave them alone.
\<close>

lemma statusUpdate_frame:
  assumes "afterStatusUpdate (updateSynapseStatus c w) = (out, w')"
  shows "afterStatusUpdate (updateSynapseStatus c (w\<lparr>heisenbridges := hs\<rparr>)) =
           (out, w'\<lparr>heisenbridges := hs\<rparr>)"
    and "afterStatusUpdate (updateSynapseStatus c (w\<lparr>mautrixsignals := ms\<rparr>)) =
           (out, w'\<lparr>mautrixsignals := ms\<rparr>)"
    and "heisenbridges w' = heisenbridges w"
    and "mautrixsignals w' = mautrixsignals w"
  using assms
  by (auto simp: afterStatusUpdate_def updateSynapseStatus_def GetSynapse_def
      PatchSynapseStatus_def nextFault_def
      split: list.splits option.splits if_splits)

text \<open>
  The step once the Synapse is fetched: the items of a list that failed are
  none, and the candidate goes to the status writer.
\<close>

lemma updateSynapseStatusBridges_unfold:
  assumes "synapses w req = Some s" and "faults w = None # f1 # fs"
  shows "updateSynapseStatusBridges req w =
     afterStatusUpdate (updateSynapseStatus
       (fold markMautrixSignal (if fs \<noteq> [] \<and> hd fs \<noteq> None then [] else mautrixsignals w)
          (fold markHeisenbridge (if f1 = None then heisenbridges w else []) s))
       (w\<lparr>faults := tl fs\<rparr>))"
proof (cases fs)
  case Nil
  with assms show ?thesis
    by (cases f1)
       (simp_all add: updateSynapseStatusBridges_def getLatestSynapse_def GetSynapse_def
        nextFault_def ContinueReconciling_def ListHeisenbridges_def ListMautrixSignals_def)
next
  case (Cons f2 fs')
  with assms show ?thesis
    by (cases f1; cases f2)
       (simp_all add: updateSynapseStatusBridges_def getLatestSynapse_def GetSynapse_def
        nextFault_def ContinueReconciling_def ListHeisenbridges_def ListMautrixSignals_def)
qed

text \<open>
  Claim C8. In updateSynapseStatusBridges, once the Synapse is fetched, a
  failure of the Heisenbridge list (or of the MautrixSignal list) with any
  error e gives the same outcome, the same returned error and the same
  cluster as a list that succeeds and returns no item: e is dropped. In
  particular, when both lists fail and the calls of the status writer go
  through, the step returns a nil error.
\<close>

theorem updateSynapseStatusBridges_list_errors:
  "synapses w req = Some s \<Longrightarrow>
   updateSynapseStatusBridges req (w\<lparr>faults := None # Some e # fs\<rparr>) =
     (fst (updateSynapseStatusBridges req (w\<lparr>heisenbridges := [], faults := None # None # fs\<rparr>)),
      (snd (updateSynapseStatusBridges req
              (w\<lparr>heisenbridges := [], faults := None # None # fs\<rparr>)))
        \<lparr>heisenbridges := heisenbridges w\<rparr>)
   \<and> updateSynapseStatusBridges req (w\<lparr>faults := None # h # Some e # fs\<rparr>) =
     (fst (updateSynapseStatusBridges req (w\<lparr>mautrixsignals := [], faults := None # h # None # fs\<rparr>)),
      (snd (updateSynapseStatusBridges req
              (w\<lparr>mautrixsignals := [], faults := None # h # None # fs\<rparr>)))
        \<lparr>mautrixsignals := mautrixsignals w\<rparr>)
   \<and> (Name s = fst req \<and> Namespace s = snd req \<longrightarrow>
        snd (fst (updateSynapseStatusBridges req (w\<lparr>faults := [None, Some e, Some e']\<rparr>))) = None)"
proof -
  assume s: "synapses w req = Some s"
  have swap: "w0\<lparr>faults := x, heisenbridges := y\<rparr> = w0\<lparr>heisenbridges := y, faults := x\<rparr>"
    "w0\<lparr>faults := x, mautrixsignals := z\<rparr> = w0\<lparr>mautrixsignals := z, faults := x\<rparr>"
    for w0 :: world and x y z
    by (cases w0, simp)+
  have a: "updateSynapseStatusBridges req (w\<lparr>faults := None # Some e # fs\<rparr>) =
     (fst (updateSynapseStatusBridges req (w\<lparr>heisenbridges := [], faults := None # None # fs\<rparr>)),
      (snd (updateSynapseStatusBridges req
              (w\<lparr>heisenbridges := [], faults := None # None # fs\<rparr>)))
        \<lparr>heisenbridges := heisenbridges w\<rparr>)"
  proof -
    let ?c = "fold markMautrixSignal
                (if fs \<noteq> [] \<and> hd fs \<noteq> None then [] else mautrixsignals w) s"
    have l: "updateSynapseStatusBridges req (w\<lparr>faults := None # Some e # fs\<rparr>)
        = afterStatusUpdate (updateSynapseStatus ?c (w\<lparr>faults := tl fs\<rparr>))"
      using updateSynapseStatusBridges_unfold
              [of "w\<lparr>faults := None # Some e # fs\<rparr>" req s "Some e" fs] s
      by simp
    have r: "updateSynapseStatusBridges req (w\<lparr>heisenbridges := [], faults := None # None # fs\<rparr>)
        = afterStatusUpdate (updateSynapseStatus ?c ((w\<lparr>faults := tl fs\<rparr>)\<lparr>heisenbridges := []\<rparr>))"
      using updateSynapseStatusBridges_unfold
              [of "w\<lparr>heisenbridges := [], faults := None # None # fs\<rparr>" req s None fs] s
      by (simp add: swap)
    obtain out w' where t: "afterStatusUpdate (updateSynapseStatus ?c (w\<lparr>faults := tl fs\<rparr>))
        = (out, w')"
      by (cases "afterStatusUpdate (updateSynapseStatus ?c (w\<lparr>faults := tl fs\<rparr>))")
    from statusUpdate_frame(1) [OF t, of "[]"] statusUpdate_frame(3) [OF t] l r t
    show ?thesis by simp
  qed
  have b: "updateSynapseStatusBridges req (w\<lparr>faults := None # h # Some e # fs\<rparr>) =
     (fst (updateSynapseStatusBridges req (w\<lparr>mautrixsignals := [], faults := None # h # None # fs\<rparr>)),
      (snd (updateSynapseStatusBridges req
              (w\<lparr>mautrixsignals := [], faults := None # h # None # fs\<rparr>)))
        \<lparr>mautrixsignals := mautrixsignals w\<rparr>)"
  proof -
    let ?c = "fold markMautrixSignal []
                (fold markHeisenbridge (if h = None then heisenbridges w else []) s)"
    have l: "updateSynapseStatusBridges req (w\<lparr>faults := None # h # Some e # fs\<rparr>)
        = afterStatusUpdate (updateSynapseStatus ?c (w\<lparr>faults := fs\<rparr>))"
      using updateSynapseStatusBridges_unfold
              [of "w\<lparr>faults := None # h # Some e # fs\<rparr>" req s h "Some e # fs"] s
      by simp
    have r: "updateSynapseStatusBridges req (w\<lparr>mautrixsignals := [], faults := None # h # None # fs\<rparr>)
        = afterStatusUpdate (updateSynapseStatus ?c ((w\<lparr>faults := fs\<rparr>)\<lparr>mautrixsignals := []\<rparr>))"
      using updateSynapseStatusBridges_unfold
              [of "w\<lparr>mautrixsignals := [], faults := None # h # None # fs\<rparr>" req s h "None # fs"] s
      by (simp add: swap)
    obtain out w' where t: "afterStatusUpdate (updateSynapseStatus ?c (w\<lparr>faults := fs\<rparr>))
        = (out, w')"
      by (cases "afterStatusUpdate (updateSynapseStatus ?c (w\<lparr>faults := fs\<rparr>))")
    from statusUpdate_frame(2) [OF t, of "[]"] statusUpdate_frame(4) [OF t] l r t
    show ?thesis by simp
  qed
  have c: "snd (fst (updateSynapseStatusBridges req (w\<lparr>faults := [None, Some e, Some e']\<rparr>))) = None"
    if "Name s = fst req \<and> Namespace s = snd req"
    using s that
          updateSynapseStatusBridges_unfold
              [of "w\<lparr>faults := [None, Some e, Some e']\<rparr>" req s "Some e" "[Some e']"]
    by (cases req)
       (simp add: afterStatusUpdate_def updateSynapseStatus_def GetSynapse_def
        PatchSynapseStatus_def nextFault_def Requeue_def ContinueReconciling_def)
  from a b c show ?thesis by simp
qed

theorem updateSynapseStatusBridges_list_errors_witness:
  "updateSynapseStatusBridges (''synapse'', ''default'')
     (world0\<lparr>faults := [None, Some conflict, Some conflict]\<rparr>) = (ContinueReconciling, world0)
   \<and> updateSynapseStatusBridges (''synapse'', ''default'')
     (world0\<lparr>heisenbridges := [], mautrixsignals := []\<rparr>) =
       (ContinueReconciling, world0\<lparr>heisenbridges := [], mautrixsignals := []\<rparr>)
   \<and> fst (updateSynapseStatusBridges (''synapse'', ''default'') world0) = Requeue"
  using updateSynapseStatusBridges_list_errors [of world0 "(''synapse'', ''default'')" synapse0
          conflict "[Some conflict]" "Some conflict" conflict]
  by (simp add: updateSynapseStatusBridges_def getLatestSynapse_def GetSynapse_def
      nextFault_def ContinueReconciling_def ListHeisenbridges_def ListMautrixSignals_def
      afterStatusUpdate_def updateSynapseStatus_def PatchSynapseStatus_def Requeue_def
      markHeisenbridge_def markMautrixSignal_def
      world0_def synapse0_def emptySynapse_def ms0_def emptyMautrixSignal_def)


section \<open>Registering an application service\<close>

text \<open>
  Claim C4, as the code has it. addAppServiceToHomeserver changes the binding
  of app_service_config_files only. When the key is absent or its value is
  not a []string, the binding becomes the one-element list of the path;
  when it is a []string the path is appended to it, whether or not the list
  already holds it. So a second application with the same path appends the
  path a second time, and the document after two applications is never the
  document after one.
\<close>

theorem addAppServiceToHomeserver_appends:
  "addAppServiceToHomeserver h p =
     h(''app_service_config_files'' \<mapsto> YStrings (registeredAppServices h @ [p]))
   \<and> addAppServiceToHomeserver (addAppServiceToHomeserver h p) p =
     h(''app_service_config_files'' \<mapsto> YStrings (registeredAppServices h @ [p, p]))
   \<and> addAppServiceToHomeserver (addAppServiceToHomeserver h p) p \<noteq> addAppServiceToHomeserver h p
   \<and> ((\<forall>xs. h ''app_service_config_files'' \<noteq> Some (YStrings xs)) \<longrightarrow>
        addAppServiceToHomeserver h p = h(''app_service_config_files'' \<mapsto> YStrings [p]))"
proof -
  have one: "addAppServiceToHomeserver h p =
     h(''app_service_config_files'' \<mapsto> YStrings (registeredAppServices h @ [p]))" for h
    by (simp add: addAppServiceToHomeserver_def registeredAppServices_def
        split: option.splits yaml.splits)
  have reg: "registeredAppServices (h(''app_service_config_files'' \<mapsto> YStrings xs)) = xs" for xs
    by (simp add: registeredAppServices_def)
  have two: "addAppServiceToHomeserver (addAppServiceToHomeserver h p) p =
     h(''app_service_config_files'' \<mapsto> YStrings (registeredAppServices h @ [p, p]))"
    by (simp add: one reg)
  have ne: "addAppServiceToHomeserver (addAppServiceToHomeserver h p) p
      \<noteq> addAppServiceToHomeserver h p"
  proof
    assume "addAppServiceToHomeserver (addAppServiceToHomeserver h p) p
      = addAppServiceToHomeserver h p"
    then have "addAppServiceToHomeserver (addAppServiceToHomeserver h p) p
        ''app_service_config_files''
      = addAppServiceToHomeserver h p ''app_service_config_files''" by simp
    then show False by (simp add: two) (simp add: one)
  qed
  have fresh: "addAppServiceToHomeserver h p = h(''app_service_config_files'' \<mapsto> YStrings [p])"
    if "\<forall>xs. h ''app_service_config_files'' \<noteq> Some (YStrings xs)"
    using that by (simp add: addAppServiceToHomeserver_def split: option.splits yaml.splits)
  from one two ne fresh show ?thesis by blast
qed

theorem addAppServiceToHomeserver_appends_witness:
  "addAppServiceToHomeserver
     (Map.empty(''app_service_config_files'' \<mapsto> YSeq [YStr ''/data/other.yaml'']))
     ''/data-heisenbridge/heisenbridge.yaml''
   = Map.empty(''app_service_config_files'' \<mapsto>
       YStrings [''/data-heisenbridge/heisenbridge.yaml''])"
  using addAppServiceToHomeserver_appends
    [of "Map.empty(''app_service_config_files'' \<mapsto> YSeq [YStr ''/data/other.yaml''])"
        "''/data-heisenbridge/heisenbridge.yaml''"]
  by (simp add: registeredAppServices_def)

text \<open>
  The claim as it was stated fails on the empty document: the Heisenbridge
  update applied twice registers the path twice.
\<close>

theorem addAppServiceToHomeserver_idempotence_counterexample:
  "snd (updateHomeserverWithHeisenbridgeInfos Map.empty) ''app_service_config_files''
     = Some (YStrings [''/data-heisenbridge/heisenbridge.yaml''])
   \<and> snd (updateHomeserverWithHeisenbridgeInfos
            (snd (updateHomeserverWithHeisenbridgeInfos Map.empty)))
         ''app_service_config_files''
     = Some (YStrings [''/data-heisenbridge/heisenbridge.yaml'',
                       ''/data-heisenbridge/heisenbridge.yaml''])
   \<and> snd (updateHomeserverWithHeisenbridgeInfos
            (snd (updateHomeserverWithHeisenbridgeInfos Map.empty)))
     \<noteq> snd (updateHomeserverWithHeisenbridgeInfos Map.empty)"
proof -
  have a: "snd (updateHomeserverWithHeisenbridgeInfos Map.empty) ''app_service_config_files''
     = Some (YStrings [''/data-heisenbridge/heisenbridge.yaml''])"
    by (simp add: updateHomeserverWithHeisenbridgeInfos_def addAppServiceToHomeserver_def)
  have b: "snd (updateHomeserverWithHeisenbridgeInfos
            (snd (updateHomeserverWithHeisenbridgeInfos Map.empty)))
         ''app_service_config_files''
     = Some (YStrings [''/data-heisenbridge/heisenbridge.yaml'',
                       ''/data-heisenbridge/heisenbridge.yaml''])"
    by (simp add: updateHomeserverWithHeisenbridgeInfos_def addAppServiceToHomeserver_def)
  have "snd (updateHomeserverWithHeisenbridgeInfos
            (snd (updateHomeserverWithHeisenbridgeInfos Map.empty)))
     \<noteq> snd (updateHomeserverWithHeisenbridgeInfos Map.empty)"
  proof
    assume "snd (updateHomeserverWithHeisenbridgeInfos
            (snd (updateHomeserverWithHeisenbridgeInfos Map.empty)))
       = snd (updateHomeserverWithHeisenbridgeInfos Map.empty)"
    with a b show False by simp
  qed
  with a b show ?thesis by simp
qed


section \<open>The keys updateMautrixSignalData owns\<close>

lemma asMap_Some: "asMap x = Some m \<longleftrightarrow> x = Some (YMap m)"
  by (cases x rule: asMap.cases) auto

text \<open>
  What a nil return means: the five sections and the two nested ones under
  logging are maps, and the document returned is the input with the six
  assignments made.
\<close>

lemma updateMautrixSignalData_nil:
  assumes "updateMautrixSignalData fqdn cns ms config = (None, config')"
  shows "\<exists>hs app sg br lg hd fl a1 d1 a2 s1 p1 f1.
     config ''homeserver'' = Some (YMap hs) \<and> config ''appservice'' = Some (YMap app)
     \<and> config ''signal'' = Some (YMap sg) \<and> config ''bridge'' = Some (YMap br)
     \<and> config ''logging'' = Some (YMap lg) \<and> lg (KStr ''handlers'') = Some (YMap hd)
     \<and> hd (KStr ''file'') = Some (YMap fl)
     \<and> config' = config
         (''homeserver'' \<mapsto> YMap (hs(KStr ''address'' \<mapsto> a1, KStr ''domain'' \<mapsto> d1)),
          ''appservice'' \<mapsto> YMap (app(KStr ''address'' \<mapsto> a2)),
          ''signal'' \<mapsto> YMap (sg(KStr ''socket_path'' \<mapsto> s1)),
          ''bridge'' \<mapsto> YMap (br(KStr ''permissions'' \<mapsto> p1)),
          ''logging'' \<mapsto> YMap (lg(KStr ''handlers'' \<mapsto>
             YMap (hd(KStr ''file'' \<mapsto> YMap (fl(KStr ''filename'' \<mapsto> f1)))))))"
proof -
  from assms obtain hs where hs: "config ''homeserver'' = Some (YMap hs)"
    by (auto simp: updateMautrixSignalData_def Let_def asMap_Some split: option.splits)
  from assms hs obtain app where app: "config ''appservice'' = Some (YMap app)"
    by (auto simp: updateMautrixSignalData_def Let_def asMap_Some split: option.splits)
  from assms hs app obtain sg where sg: "config ''signal'' = Some (YMap sg)"
    by (auto simp: updateMautrixSignalData_def Let_def asMap_Some split: option.splits)
  from assms hs app sg obtain br where br: "config ''bridge'' = Some (YMap br)"
    by (auto simp: updateMautrixSignalData_def Let_def asMap_Some split: option.splits)
  from assms hs app sg br obtain lg where lg: "config ''logging'' = Some (YMap lg)"
    by (auto simp: updateMautrixSignalData_def Let_def asMap_Some split: option.splits)
  from assms hs app sg br lg obtain hd where hd: "lg (KStr ''handlers'') = Some (YMap hd)"
    by (auto simp: updateMautrixSignalData_def Let_def asMap_Some split: option.splits)
  from assms hs app sg br lg hd obtain fl where fl: "hd (KStr ''file'') = Some (YMap fl)"
    by (auto simp: updateMautrixSignalData_def Let_def asMap_Some split: option.splits)
  from assms hs app sg br lg hd fl
  have "\<exists>a1 d1 a2 s1 p1 f1. config' = config
         (''homeserver'' \<mapsto> YMap (hs(KStr ''address'' \<mapsto> a1, KStr ''domain'' \<mapsto> d1)),
          ''appservice'' \<mapsto> YMap (app(KStr ''address'' \<mapsto> a2)),
          ''signal'' \<mapsto> YMap (sg(KStr ''socket_path'' \<mapsto> s1)),
          ''bridge'' \<mapsto> YMap (br(KStr ''permissions'' \<mapsto> p1)),
          ''logging'' \<mapsto> YMap (lg(KStr ''handlers'' \<mapsto>
             YMap (hd(KStr ''file'' \<mapsto> YMap (fl(KStr ''filename'' \<mapsto> f1)))))))"
    unfolding updateMautrixSignalData_def Let_def
    by (simp add: asMap_Some) blast
  with hs app sg br lg hd fl show ?thesis by blast
qed

text \<open>
  Claim C9. For every document on which updateMautrixSignalData returns nil
  and every path of keys p: unless p leads to, into or through one of the six
  bindings homeserver.address, homeserver.domain, appservice.address,
  signal.socket_path, bridge.permissions, logging.handlers.file.filename
  (p is a prefix of such a path, or such a path is a prefix of p), the
  document returned has at p what the input had at p: the same value, or no
  binding if there was none.
\<close>

theorem updateMautrixSignalData_frame:
  "updateMautrixSignalData fqdn cns ms config = (None, config') \<Longrightarrow>
   \<forall>q \<in> set ownedPaths. \<not> prefix q p \<and> \<not> prefix p q \<Longrightarrow>
   lookupPath p (YObject config') = lookupPath p (YObject config)"
proof -
  assume ok: "updateMautrixSignalData fqdn cns ms config = (None, config')"
    and free: "\<forall>q \<in> set ownedPaths. \<not> prefix q p \<and> \<not> prefix p q"
  from updateMautrixSignalData_nil [OF ok]
  obtain hs app sg br lg hd fl a1 d1 a2 s1 p1 f1 where
    c: "config ''homeserver'' = Some (YMap hs)" "config ''appservice'' = Some (YMap app)"
       "config ''signal'' = Some (YMap sg)" "config ''bridge'' = Some (YMap br)"
       "config ''logging'' = Some (YMap lg)" "lg (KStr ''handlers'') = Some (YMap hd)"
       "hd (KStr ''file'') = Some (YMap fl)"
    and c': "config' = config
         (''homeserver'' \<mapsto> YMap (hs(KStr ''address'' \<mapsto> a1, KStr ''domain'' \<mapsto> d1)),
          ''appservice'' \<mapsto> YMap (app(KStr ''address'' \<mapsto> a2)),
          ''signal'' \<mapsto> YMap (sg(KStr ''socket_path'' \<mapsto> s1)),
          ''bridge'' \<mapsto> YMap (br(KStr ''permissions'' \<mapsto> p1)),
          ''logging'' \<mapsto> YMap (lg(KStr ''handlers'' \<mapsto>
             YMap (hd(KStr ''file'' \<mapsto> YMap (fl(KStr ''filename'' \<mapsto> f1)))))))"
    by blast
  have o1: "\<not> prefix [KStr ''homeserver'', KStr ''address''] p"
      "\<not> prefix p [KStr ''homeserver'', KStr ''address'']"
    and o2: "\<not> prefix [KStr ''homeserver'', KStr ''domain''] p"
    and o3: "\<not> prefix [KStr ''appservice'', KStr ''address''] p"
      "\<not> prefix p [KStr ''appservice'', KStr ''address'']"
    and o4: "\<not> prefix [KStr ''signal'', KStr ''socket_path''] p"
      "\<not> prefix p [KStr ''signal'', KStr ''socket_path'']"
    and o5: "\<not> prefix [KStr ''bridge'', KStr ''permissions''] p"
      "\<not> prefix p [KStr ''bridge'', KStr ''permissions'']"
    and o6: "\<not> prefix [KStr ''logging'', KStr ''handlers'', KStr ''file'', KStr ''filename''] p"
      "\<not> prefix p [KStr ''logging'', KStr ''handlers'', KStr ''file'', KStr ''filename'']"
    using free by (simp_all add: ownedPaths_def)
  note free = o1 o2 o3 o4 o5 o6
  show ?thesis
  proof (cases p)
    case Nil
    with o1 show ?thesis by simp
  next
    case p: (Cons k ks)
    show ?thesis
    proof (cases k)
      case (KStr x)
      consider "x = ''homeserver''" | "x = ''appservice''" | "x = ''signal''" | "x = ''bridge''"
        | "x = ''logging''"
        | "x \<noteq> ''homeserver'' \<and> x \<noteq> ''appservice'' \<and> x \<noteq> ''signal''
            \<and> x \<noteq> ''bridge'' \<and> x \<noteq> ''logging''"
        by argo
      then show ?thesis
      proof cases
        case 1
        with free p KStr c c' show ?thesis
          by (cases ks) auto
      next
        case 2
        with free p KStr c c' show ?thesis
          by (cases ks) auto
      next
        case 3
        with free p KStr c c' show ?thesis
          by (cases ks) auto
      next
        case 4
        with free p KStr c c' show ?thesis
          by (cases ks) auto
      next
        case 5
        show ?thesis
        proof (cases ks)
          case Nil
          with free p KStr 5 show ?thesis by simp
        next
          case ks: (Cons k2 ks2)
          show ?thesis
          proof (cases "k2 = KStr ''handlers''")
            case False
            with p KStr 5 ks c c' show ?thesis by simp
          next
            case h: True
            show ?thesis
            proof (cases ks2)
              case Nil
              with free p KStr 5 ks h show ?thesis by simp
            next
              case ks2: (Cons k3 ks3)
              show ?thesis
              proof (cases "k3 = KStr ''file''")
                case False
                with p KStr 5 ks h ks2 c c' show ?thesis by simp
              next
                case f: True
                with free p KStr 5 ks h ks2 c c' show ?thesis
                  by (cases ks3) auto
              qed
            qed
          qed
        qed
      next
        case 6
        with p KStr c' show ?thesis by simp
      qed
    qed (simp_all add: p)
  qed
qed

theorem updateMautrixSignalData_frame_witness:
  "fst (updateMautrixSignalData clusterFQDN namespaceOrDefault ms0 config0) = None
   \<and> lookupPath [KStr ''homeserver'', KStr ''verify_ssl'']
        (YObject (snd (updateMautrixSignalData clusterFQDN namespaceOrDefault ms0 config0)))
       = Some (YBool True)
   \<and> lookupPath [KStr ''logging'', KStr ''version'']
        (YObject (snd (updateMautrixSignalData clusterFQDN namespaceOrDefault ms0 config0)))
       = Some (YInt 1)
   \<and> lookupPath [KStr ''metrics'', KStr ''enabled'']
        (YObject (snd (updateMautrixSignalData clusterFQDN namespaceOrDefault ms0 config0)))
       = Some (YBool False)"
proof -
  have nil: "fst (updateMautrixSignalData clusterFQDN namespaceOrDefault ms0 config0) = None"
    by (simp add: updateMautrixSignalData_def Let_def config0_def)
  then have ok: "updateMautrixSignalData clusterFQDN namespaceOrDefault ms0 config0 =
      (None, snd (updateMautrixSignalData clusterFQDN namespaceOrDefault ms0 config0))"
    by (simp add: prod_eq_iff)
  have a: "\<forall>q \<in> set ownedPaths. \<not> prefix q [KStr ''homeserver'', KStr ''verify_ssl'']
             \<and> \<not> prefix [KStr ''homeserver'', KStr ''verify_ssl''] q"
    and b: "\<forall>q \<in> set ownedPaths. \<not> prefix q [KStr ''logging'', KStr ''version'']
             \<and> \<not> prefix [KStr ''logging'', KStr ''version''] q"
    and c: "\<forall>q \<in> set ownedPaths. \<not> prefix q [KStr ''metrics'', KStr ''enabled'']
             \<and> \<not> prefix [KStr ''metrics'', KStr ''enabled''] q"
    by (simp_all add: ownedPaths_def)
  have before: "lookupPath [KStr ''homeserver'', KStr ''verify_ssl''] (YObject config0)
        = Some (YBool True)"
      "lookupPath [KStr ''logging'', KStr ''version''] (YObject config0) = Some (YInt 1)"
      "lookupPath [KStr ''metrics'', KStr ''enabled''] (YObject config0) = Some (YBool False)"
    by (simp_all add: config0_def)
  from updateMautrixSignalData_frame [OF ok a] updateMautrixSignalData_frame [OF ok b]
       updateMautrixSignalData_frame [OF ok c] nil before
  show ?thesis by (simp only:)
qed


end
